theory Spec2Isabelle
  imports
    Main
    "HOL-Library.Char_ord"
    "HOL-Library.List_Lexorder"
    "HOL-Library.Multiset"
begin

section \<open>Python strings\<close>

text \<open>
  A Python \<open>str\<close> is a sequence of code points. It is modelled as a \<open>string\<close> with one
  \<open>char\<close> for each code point, which covers the code points below 256. The two character
  classes the script uses are written out for that range: \<open>str.isspace\<close>, which is also
  what \<open>\s\<close> matches in a \<open>str\<close> pattern, and the word characters of \<open>\w\<close>
  (\<open>str.isalnum\<close> or an underscore).
\<close>

definition bt :: char where
  "bt = CHR 0x60"

definition nl :: char where
  "nl = CHR 0x0A"

definition isspace :: "char \<Rightarrow> bool" where
  "isspace c =
     (let n = (of_char c :: nat)
      in (9 \<le> n \<and> n \<le> 13) \<or> (28 \<le> n \<and> n \<le> 32) \<or> n = 133 \<or> n = 160)"

definition isword :: "char \<Rightarrow> bool" where
  "isword c =
     (let n = (of_char c :: nat)
      in (48 \<le> n \<and> n \<le> 57) \<or> (65 \<le> n \<and> n \<le> 90) \<or> n = 95 \<or> (97 \<le> n \<and> n \<le> 122)
         \<or> n = 170 \<or> n = 178 \<or> n = 179 \<or> n = 181 \<or> n = 185 \<or> n = 186
         \<or> (188 \<le> n \<and> n \<le> 190) \<or> (192 \<le> n \<and> n \<le> 214)
         \<or> (216 \<le> n \<and> n \<le> 246) \<or> (248 \<le> n \<and> n \<le> 255))"

text \<open>\<open>s.strip()\<close>: leading and trailing whitespace removed.\<close>

definition strip :: "string \<Rightarrow> string" where
  "strip s = rev (dropWhile isspace (rev (dropWhile isspace s)))"

text \<open>\<open>s.startswith(p)\<close>.\<close>

definition startswith :: "string \<Rightarrow> string \<Rightarrow> bool" where
  "startswith s p = (take (length p) s = p)"

text \<open>\<open>sep.join(xs)\<close>.\<close>

fun join :: "string \<Rightarrow> string list \<Rightarrow> string" where
  "join sep [] = []"
| "join sep [x] = x"
| "join sep (x # y # ys) = x @ sep @ join sep (y # ys)"

text \<open>
  \<open>s.split(d)\<close> for a separator of one character: the result always has at least one
  element, and \<open>n\<close> separators give \<open>n + 1\<close> elements.
\<close>

fun split_from :: "char \<Rightarrow> string \<Rightarrow> string \<Rightarrow> string list" where
  "split_from d piece [] = [piece]"
| "split_from d piece (c # cs) =
     (if c = d then piece # split_from d [] cs else split_from d (piece @ [c]) cs)"

definition split_on :: "char \<Rightarrow> string \<Rightarrow> string list" where
  "split_on d s = split_from d [] s"

text \<open>
  \<open>s.replace(old, new)\<close>: the occurrences of \<open>old\<close> are replaced from left to right,
  without overlap. With an empty \<open>old\<close> Python puts \<open>new\<close> before every character and
  at the end.
\<close>

function replace :: "string \<Rightarrow> string \<Rightarrow> string \<Rightarrow> string" where
  "replace old new [] = (if old = [] then new else [])"
| "replace old new (c # cs) =
     (if old = [] then new @ c # replace old new cs
      else if startswith (c # cs) old then new @ replace old new (drop (length old) (c # cs))
      else c # replace old new cs)"
  by pat_completeness auto
termination
  by (relation "measure (\<lambda>(old, new, s). length s)") auto

section \<open>The escaper\<close>

text \<open>
  \<open>clean_usage_line\<close> replaces the entry point's name in a usage line.
\<close>

definition clean_usage_line :: "string \<Rightarrow> string" where
  "clean_usage_line usage = replace ''Usage: cli '' ''Usage: cocoindex '' usage"

text \<open>
  The pattern \<open>http://localhost:<([^>]+)>\<close> at the start of a string. The group is
  greedy, and every character it can take is not \<open>>\<close>, so it matches in one way only:
  the longest run without \<open>>\<close>, which must not be empty and must be followed by
  \<open>>\<close>. The result is the group and the text after the match.
\<close>

definition match_localhost :: "string \<Rightarrow> (string \<times> string) option" where
  "match_localhost s =
     (if startswith s ''http://localhost:<'' then
        (let r0 = drop 18 s;
             g1 = takeWhile (\<lambda>c. c \<noteq> CHR ''>'') r0;
             r1 = dropWhile (\<lambda>c. c \<noteq> CHR ''>'') r0
         in if g1 \<noteq> [] \<and> r1 \<noteq> [] then Some (g1, drop 1 r1) else None)
      else None)"

text \<open>
  The pattern \<open>https://([^<\s]+)<([^>]+)>\<close> at the start of a string: the first
  group is the longest run without \<open><\<close> and without whitespace, the second the longest
  run without \<open>>\<close>; backtracking finds no other match, since a shorter group is
  followed by a character of the group.
\<close>

definition match_https :: "string \<Rightarrow> (string \<times> string \<times> string) option" where
  "match_https s =
     (if startswith s ''https://'' then
        (let r0 = drop 8 s;
             g1 = takeWhile (\<lambda>c. c \<noteq> CHR ''<'' \<and> \<not> isspace c) r0;
             r1 = dropWhile (\<lambda>c. c \<noteq> CHR ''<'' \<and> \<not> isspace c) r0
         in if g1 \<noteq> [] \<and> startswith r1 ''<'' then
              (let r2 = drop 1 r1;
                   g2 = takeWhile (\<lambda>c. c \<noteq> CHR ''>'') r2;
                   r3 = dropWhile (\<lambda>c. c \<noteq> CHR ''>'') r2
               in if g2 \<noteq> [] \<and> r3 \<noteq> [] then Some (g1, g2, drop 1 r3) else None)
            else None)
      else None)"

text \<open>
  \<open>re.sub\<close> with each of the two patterns: the text is scanned from the left, a match is
  replaced by itself between backticks and the scan goes on after it; where the pattern
  does not match, the character is kept.
\<close>

function sub_localhost :: "string \<Rightarrow> string" where
  "sub_localhost [] = []"
| "sub_localhost (c # cs) =
     (case match_localhost (c # cs) of
        Some (g1, rest) \<Rightarrow> ''`http://localhost:<'' @ g1 @ ''>`'' @ sub_localhost rest
      | None \<Rightarrow> c # sub_localhost cs)"
  by pat_completeness auto
termination
proof (relation "measure length")
  fix c :: char and cs g1 rest x2
  assume "match_localhost (c # cs) = Some x2" and "(g1, rest) = x2"
  then have "rest = drop 1 (dropWhile (\<lambda>c. c \<noteq> CHR ''>'') (drop 18 (c # cs)))"
    by (auto simp: match_localhost_def Let_def split: if_splits)
  moreover have "length (dropWhile (\<lambda>c. c \<noteq> CHR ''>'') (drop 18 (c # cs))) \<le> length (drop 18 (c # cs))"
    by (rule length_dropWhile_le)
  ultimately show "(rest, c # cs) \<in> measure length"
    by simp
qed simp_all

function sub_https :: "string \<Rightarrow> string" where
  "sub_https [] = []"
| "sub_https (c # cs) =
     (case match_https (c # cs) of
        Some (g1, g2, rest) \<Rightarrow> ''`https://'' @ g1 @ ''<'' @ g2 @ ''>`'' @ sub_https rest
      | None \<Rightarrow> c # sub_https cs)"
  by pat_completeness auto
termination
proof (relation "measure length")
  fix c :: char and cs g1 g2 rest x2 y
  assume "match_https (c # cs) = Some x2" and "(g1, y) = x2" and "(g2, rest) = y"
  then have "rest = drop 1 (dropWhile (\<lambda>c. c \<noteq> CHR ''>'')
      (drop 1 (dropWhile (\<lambda>c. c \<noteq> CHR ''<'' \<and> \<not> isspace c) (drop 8 (c # cs)))))"
    by (auto simp: match_https_def Let_def split: if_splits)
  moreover have "length (dropWhile (\<lambda>c. c \<noteq> CHR ''>'')
      (drop 1 (dropWhile (\<lambda>c. c \<noteq> CHR ''<'' \<and> \<not> isspace c) (drop 8 (c # cs)))))
      \<le> length (drop 1 (dropWhile (\<lambda>c. c \<noteq> CHR ''<'' \<and> \<not> isspace c) (drop 8 (c # cs))))"
    by (rule length_dropWhile_le)
  moreover have "length (dropWhile (\<lambda>c. c \<noteq> CHR ''<'' \<and> \<not> isspace c) (drop 8 (c # cs)))
      \<le> length (drop 8 (c # cs))"
    by (rule length_dropWhile_le)
  ultimately show "(rest, c # cs) \<in> measure length"
    by simp
qed simp_all

text \<open>
  \<open>re.split\<close> with the pattern \<open>(`[^`]*`)\<close>, whose group keeps the separators in the
  result: the elements at even indices are the text between code spans, those at odd
  indices the code spans with their backticks. A backtick with no backtick after it
  starts no span, and the rest of the text is the last element.
\<close>

function re_split_code :: "string \<Rightarrow> string list" where
  "re_split_code s =
     (let pre = takeWhile (\<lambda>c. c \<noteq> bt) s;
          r1 = dropWhile (\<lambda>c. c \<noteq> bt) s
      in if r1 = [] then [s]
         else
           (let body = takeWhile (\<lambda>c. c \<noteq> bt) (tl r1);
                r2 = dropWhile (\<lambda>c. c \<noteq> bt) (tl r1)
            in if r2 = [] then [s]
               else pre # (bt # body @ [bt]) # re_split_code (tl r2)))"
  by pat_completeness auto
termination
proof (relation "measure length")
  show "wf (measure length)"
    by simp
next
  fix s :: string and pre r1 body r2
  assume r1: "r1 = dropWhile (\<lambda>c. c \<noteq> bt) s"
    and r2: "r2 = dropWhile (\<lambda>c. c \<noteq> bt) (tl r1)"
    and ne: "r2 \<noteq> []"
  have "length r2 \<le> length (tl r1)"
    unfolding r2 by (rule length_dropWhile_le)
  moreover have "length r1 \<le> length s"
    unfolding r1 by (rule length_dropWhile_le)
  moreover from ne have "length (tl r2) < length r2"
    by (cases r2) auto
  ultimately show "(tl r2, s) \<in> measure length"
    by simp
qed

declare re_split_code.simps [simp del]

text \<open>
  The loop over \<open>enumerate(parts)\<close>: the index starts at 0, the parts at even indices are
  escaped, the others are kept.
\<close>

definition escape_text :: "string \<Rightarrow> string" where
  "escape_text part = replace ''>'' ''&gt;'' (replace ''<'' ''&lt;'' part)"

fun escape_parts :: "nat \<Rightarrow> string list \<Rightarrow> string list" where
  "escape_parts i [] = []"
| "escape_parts i (part # parts) =
     (if i mod 2 = 0 then escape_text part else part) # escape_parts (Suc i) parts"

definition escape_html_tags :: "string \<Rightarrow> string" where
  "escape_html_tags text =
     (let text1 = sub_localhost text;
          text2 = sub_https text1;
          parts = re_split_code text2
      in concat (escape_parts 0 parts))"

text \<open>
  The code spans of a text, as the escaper finds them: the parts at odd indices of the
  split, each with its two backticks.
\<close>

fun odd_parts :: "string list \<Rightarrow> string list" where
  "odd_parts [] = []"
| "odd_parts [text] = []"
| "odd_parts (text # code # parts) = code # odd_parts parts"

definition code_spans :: "string \<Rightarrow> string list" where
  "code_spans s = odd_parts (re_split_code s)"

section \<open>The options table\<close>

text \<open>
  The first loop of \<open>format_options_section\<close>: \<open>options_start\<close> is the index of the
  last line that reads \<open>Options:\<close> before the first line that reads \<open>Commands:\<close>, where
  the loop breaks with \<open>commands_start\<close> set.
\<close>

fun find_sections :: "nat \<Rightarrow> string list \<Rightarrow> nat option \<Rightarrow> nat option \<times> nat option" where
  "find_sections i [] options_start = (options_start, None)"
| "find_sections i (line # lines) options_start =
     (if strip line = ''Options:'' then find_sections (Suc i) lines (Some i)
      else if strip line = ''Commands:'' then (options_start, Some i)
      else find_sections (Suc i) lines options_start)"

text \<open>
  \<open>re.search\<close> with \<open>\s{2,}\<close>: the first place where two whitespace characters follow
  each other; the match takes the whole run. The result is the text before the match and
  the text after it.
\<close>

fun search_spaces :: "string \<Rightarrow> (string \<times> string) option" where
  "search_spaces [] = None"
| "search_spaces [c] = None"
| "search_spaces (c # d # cs) =
     (if isspace c \<and> isspace d then Some ([], dropWhile isspace cs)
      else (case search_spaces (d # cs) of
              Some (before, after) \<Rightarrow> Some (c # before, after)
            | None \<Rightarrow> None))"

text \<open>One body row of the options table, as the f-string writes it.\<close>

definition option_row :: "string \<Rightarrow> string list \<Rightarrow> string" where
  "option_row current_option current_description =
     (let desc = strip (join '' '' current_description);
          desc = escape_html_tags desc
      in ''| `'' @ current_option @ ''` | '' @ desc @ '' |'')"

text \<open>
  The second loop: its state is the rows written so far, the option being read (if any)
  and the lines of its description.
\<close>

fun parse_options ::
  "string list \<Rightarrow> string list \<Rightarrow> string option \<Rightarrow> string list
     \<Rightarrow> string list \<times> string option \<times> string list" where
  "parse_options [] formatted_options current_option current_description =
     (formatted_options, current_option, current_description)"
| "parse_options (line # lines) formatted_options current_option current_description =
     (if strip line = [] then
        parse_options lines formatted_options current_option current_description
      else if startswith line ''  -'' \<and> \<not> startswith line ''   '' then
        (let formatted_options =
               (case current_option of
                  Some opt \<Rightarrow> formatted_options @ [option_row opt current_description]
                | None \<Rightarrow> formatted_options);
             content = drop 2 line
         in case search_spaces content of
              Some (option_part, desc_part) \<Rightarrow>
                parse_options lines formatted_options (Some (strip option_part))
                  (if strip desc_part \<noteq> [] then [strip desc_part] else [])
            | None \<Rightarrow>
                parse_options lines formatted_options (Some (strip content)) [])
      else if current_option \<noteq> None \<and> strip line \<noteq> [] then
        parse_options lines formatted_options current_option
          (current_description @ [strip line])
      else
        parse_options lines formatted_options current_option current_description)"

definition format_options_section :: "string \<Rightarrow> string" where
  "format_options_section help_text =
     (let lines = split_on nl help_text
      in case find_sections 0 lines None of
           (None, commands_start) \<Rightarrow> []
         | (Some options_start, commands_start) \<Rightarrow>
             (let end_idx =
                    (case commands_start of
                       Some i \<Rightarrow> if i \<noteq> 0 then i else length lines
                     | None \<Rightarrow> length lines);
                  options_lines = drop (Suc options_start) (take end_idx lines)
              in case parse_options options_lines [] None [] of
                   (formatted_options, current_option, current_description) \<Rightarrow>
                     (let formatted_options =
                            (case current_option of
                               Some opt \<Rightarrow>
                                 formatted_options @ [option_row opt current_description]
                             | None \<Rightarrow> formatted_options)
                      in if formatted_options \<noteq> [] then
                           ''| Option | Description |\<newline>|--------|-------------|''
                             @ [nl] @ join [nl] formatted_options @ [nl]
                         else [])))"

section \<open>The commands table\<close>

text \<open>The index of the first line that reads \<open>Commands:\<close>.\<close>

fun find_commands :: "nat \<Rightarrow> string list \<Rightarrow> nat option" where
  "find_commands i [] = None"
| "find_commands i (line # lines) =
     (if strip line = ''Commands:'' then Some i else find_commands (Suc i) lines)"

text \<open>
  \<open>re.match\<close> with \<open>^  (\w+)\s{2,}(.+)$\<close> on a line (a line holds no newline, so
  \<open>.\<close> matches every character of it). Word characters and whitespace are disjoint,
  so the first group is the longest run of word characters and the whitespace after it
  is the longest run. Where text follows the whitespace, it is the second group; where
  the line ends with the whitespace, the match gives one whitespace character back to the
  second group, which needs a run of three.
\<close>

definition match_command :: "string \<Rightarrow> (string \<times> string) option" where
  "match_command line =
     (if startswith line ''  '' then
        (let r0 = drop 2 line;
             g1 = takeWhile isword r0;
             r1 = dropWhile isword r0;
             ws = takeWhile isspace r1;
             r2 = dropWhile isspace r1
         in if g1 \<noteq> [] \<and> 2 \<le> length ws then
              (if r2 \<noteq> [] then Some (g1, r2)
               else if 3 \<le> length ws then Some (g1, [last ws])
               else None)
            else None)
      else None)"

fun parse_commands :: "string list \<Rightarrow> string list \<Rightarrow> string list" where
  "parse_commands [] formatted_commands = formatted_commands"
| "parse_commands (line # lines) formatted_commands =
     (if strip line = [] then parse_commands lines formatted_commands
      else (case match_command line of
              Some (command, g2) \<Rightarrow>
                (let description = strip g2;
                     description =
                       (if 80 < length description then take 77 description @ ''...''
                        else description)
                 in parse_commands lines
                      (formatted_commands @ [''| `'' @ command @ ''` | '' @ description @ '' |'']))
            | None \<Rightarrow> parse_commands lines formatted_commands))"

definition format_commands_section :: "string \<Rightarrow> string" where
  "format_commands_section help_text =
     (let lines = split_on nl help_text
      in case find_commands 0 lines of
           None \<Rightarrow> []
         | Some commands_start \<Rightarrow>
             (let commands_lines = drop (Suc commands_start) lines;
                  formatted_commands = parse_commands commands_lines []
              in if formatted_commands \<noteq> [] then
                   ''| Command | Description |\<newline>|---------|-------------|''
                     @ [nl] @ join [nl] formatted_commands @ [nl]
                 else []))"

section \<open>The description\<close>

fun description_loop :: "string list \<Rightarrow> string list \<Rightarrow> bool \<Rightarrow> string list" where
  "description_loop [] description_lines in_description = description_lines"
| "description_loop (line # lines) description_lines in_description =
     (if startswith line ''Usage:'' then description_loop lines description_lines True
      else if strip line = ''Options:'' \<or> strip line = ''Commands:'' then description_lines
      else if in_description \<and> strip line \<noteq> [] then
        description_loop lines (description_lines @ [strip line]) in_description
      else description_loop lines description_lines in_description)"

definition extract_description :: "string \<Rightarrow> string" where
  "extract_description help_text =
     (let lines = split_on nl help_text;
          description_lines = description_loop lines [] False;
          description =
            (if description_lines \<noteq> [] then join [nl, nl] description_lines else [])
      in escape_html_tags description)"

section \<open>The document\<close>

text \<open>
  One entry of the list that \<open>generate_command_docs\<close> receives: the name of the command
  (\<open>doc["command"].name\<close>), the usage line, the help text, and the parent, which
  \<open>doc.get("parent", "")\<close> reads, so that the key may be absent.
\<close>

record command_help =
  cmd_name :: string
  cmd_parent :: "string option"
  cmd_usage :: string
  cmd_help :: string

text \<open>\<open>not parent\<close>: the key is absent or the string is empty.\<close>

definition no_parent :: "command_help \<Rightarrow> bool" where
  "no_parent doc = (case cmd_parent doc of None \<Rightarrow> True | Some parent \<Rightarrow> parent = [])"

text \<open>The loop that separates the main entry from the subcommands.\<close>

fun separate ::
  "command_help list \<Rightarrow> command_help option \<Rightarrow> command_help list
     \<Rightarrow> command_help option \<times> command_help list" where
  "separate [] main_cli subcommands = (main_cli, subcommands)"
| "separate (doc # docs) main_cli subcommands =
     (if no_parent doc then separate docs (Some doc) subcommands
      else separate docs main_cli (subcommands @ [doc]))"

text \<open>The lines appended for the main entry.\<close>

definition main_lines :: "command_help \<Rightarrow> string list" where
  "main_lines main_cli =
     (let help_text = cmd_help main_cli;
          usage = clean_usage_line (cmd_usage main_cli);
          description = extract_description help_text;
          options_section = format_options_section help_text;
          commands_section = format_commands_section help_text
      in [''# CLI Commands Reference'', [],
          ''This page contains the detailed help information for all CocoIndex CLI commands.'',
          []]
         @ (if description \<noteq> [] then [''## Overview'', [], description, []] else [])
         @ [''## Usage'', [], ''```sh'', usage, ''```'', []]
         @ (if options_section \<noteq> [] then [''## Global Options'', [], options_section, []]
            else [])
         @ (if commands_section \<noteq> [] then [''## Commands'', [], commands_section, []]
            else []))"

text \<open>The lines appended for one subcommand.\<close>

definition subcommand_lines :: "command_help \<Rightarrow> string list" where
  "subcommand_lines doc =
     (let command_name = cmd_name doc;
          help_text = cmd_help doc;
          usage = clean_usage_line (cmd_usage doc);
          description = extract_description help_text;
          options_section = format_options_section help_text
      in [''### `'' @ command_name @ ''`'', []]
         @ (if description \<noteq> [] then [description, []] else [])
         @ [''**Usage:**'', [], ''```bash'', usage, ''```'', []]
         @ (if options_section \<noteq> [] then [''**Options:**'', [], options_section, []]
            else [])
         @ [''---'', []])"

text \<open>
  \<open>markdown_content\<close> at the end of \<open>generate_command_docs\<close>. Python's \<open>sorted\<close> is
  stable, as \<open>sort_key\<close> is, and compares strings by code point, as the lexicographic
  order on \<open>string\<close> does.
\<close>

definition markdown_content :: "command_help list \<Rightarrow> string list" where
  "markdown_content docs =
     (case separate docs None [] of
        (main_cli, subcommands) \<Rightarrow>
          (case main_cli of Some m \<Rightarrow> main_lines m | None \<Rightarrow> [])
          @ [''## Command Details'', []]
          @ concat (map subcommand_lines (sort_key cmd_name subcommands)))"

definition generate_command_docs :: "command_help list \<Rightarrow> string" where
  "generate_command_docs docs = join [nl] (markdown_content docs)"

text \<open>A document holds a line when splitting it at the newlines gives that line.\<close>

definition has_line :: "string \<Rightarrow> string \<Rightarrow> bool" where
  "has_line doc line = (line \<in> set (split_on nl doc))"

section \<open>The writer\<close>

text \<open>
  Both \<open>open\<close> calls of \<open>main\<close> are in text mode with the default
  \<open>newline=None\<close>. Reading then gives \<open>\n\<close> for each \<open>\r\n\<close> and for each
  other \<open>\r\<close> of the file, and writing stores the line separator of the platform
  (\<open>os.linesep\<close>) for each \<open>\n\<close> and every other character as it is. The file is
  held as the characters stored in it (the UTF-8 codec maps them one to one to bytes and
  is left out), \<open>None\<close> when it does not exist.
\<close>

definition cr :: char where
  "cr = CHR 0x0D"

fun read_text :: "string \<Rightarrow> string" where
  "read_text [] = []"
| "read_text [c] = (if c = cr then [nl] else [c])"
| "read_text (c # d # cs) =
     (if c = cr \<and> d = nl then nl # read_text cs
      else if c = cr then nl # read_text (d # cs)
      else c # read_text (d # cs))"

definition write_text :: "string \<Rightarrow> string \<Rightarrow> string" where
  "write_text linesep content = replace [nl] linesep content"

text \<open>
  The part of \<open>main\<close> that touches the output file, on a platform with the given
  line separator. The state also records every text passed to \<open>f.write\<close>, so that a
  run without a write can be told from a run that writes the same text again.
\<close>

record file_state =
  output_file :: "string option"
  written :: "string list"

datatype report = Generated | Up_To_Date

definition write_docs :: "string \<Rightarrow> string \<Rightarrow> file_state \<Rightarrow> file_state \<times> report" where
  "write_docs linesep content st =
     (let content_changed =
            (case output_file st of
               Some stored \<Rightarrow> (let existing_content = read_text stored
                               in existing_content \<noteq> content)
             | None \<Rightarrow> True)
      in if content_changed then
           (st\<lparr>output_file := Some (write_text linesep content),
               written := written st @ [content]\<rparr>, Generated)
         else (st, Up_To_Date))"

text \<open>
  \<open>main\<close>, given the list that the help recursion of the command-line library yields.
\<close>

definition main :: "string \<Rightarrow> command_help list \<Rightarrow> file_state \<Rightarrow> file_state \<times> report" where
  "main linesep docs st = write_docs linesep (generate_command_docs docs) st"

section \<open>Code spans and the escaper\<close>

lemma replace_single:
  "replace [a] new s = concat (map (\<lambda>c. if c = a then new else [c]) s)"
  by (induction s) (auto simp: startswith_def)

lemma escape_text_append: "escape_text (a @ b) = escape_text a @ escape_text b"
  by (simp add: escape_text_def replace_single del: replace.simps)

lemma escape_text_no_backtick: "bt \<notin> set t \<Longrightarrow> bt \<notin> set (escape_text t)"
  by (auto simp: escape_text_def replace_single bt_def simp del: replace.simps split: if_splits)

lemma escape_text_backtick: "escape_text (bt # t) = bt # escape_text t"
  by (simp add: escape_text_def replace_single bt_def del: replace.simps)

lemma take_until: "x \<notin> set pre \<Longrightarrow> takeWhile (\<lambda>c. c \<noteq> x) (pre @ x # r) = pre"
  by (induction pre) auto

lemma drop_until: "x \<notin> set pre \<Longrightarrow> dropWhile (\<lambda>c. c \<noteq> x) (pre @ x # r) = x # r"
  by (induction pre) auto

lemma split_no_backtick: "bt \<notin> set s \<Longrightarrow> re_split_code s = [s]"
  by (subst re_split_code.simps) (auto simp: dropWhile_eq_Nil_conv Let_def)

lemma split_one_backtick:
  "bt \<notin> set pre \<Longrightarrow> bt \<notin> set tail \<Longrightarrow> re_split_code (pre @ bt # tail) = [pre @ bt # tail]"
  by (subst re_split_code.simps) (auto simp: drop_until dropWhile_eq_Nil_conv Let_def)

lemma split_span:
  "bt \<notin> set pre \<Longrightarrow> bt \<notin> set body \<Longrightarrow>
     re_split_code (pre @ bt # body @ bt # rest)
       = pre # (bt # body @ [bt]) # re_split_code rest"
  by (subst re_split_code.simps) (simp add: drop_until take_until Let_def)

text \<open>
  A text has no backtick, or one backtick, or a first code span with text after it.
\<close>

lemma backtick_cases:
  obtains (none) "bt \<notin> set s"
  | (one) pre tail where "s = pre @ bt # tail" "bt \<notin> set pre" "bt \<notin> set tail"
  | (span) pre body rest where
      "s = pre @ bt # body @ bt # rest" "bt \<notin> set pre" "bt \<notin> set body"
proof (cases "bt \<in> set s")
  case False
  then show ?thesis by (rule none)
next
  case True
  then obtain pre r where s: "s = pre @ bt # r" and p: "bt \<notin> set pre"
    by (meson split_list_first)
  show ?thesis
  proof (cases "bt \<in> set r")
    case False
    with s p show ?thesis by (rule one)
  next
    case True
    then obtain body rest where r: "r = body @ bt # rest" and b: "bt \<notin> set body"
      by (meson split_list_first)
    from s r p b show ?thesis by (auto intro: span [of pre body rest])
  qed
qed

lemma escape_parts_Suc_Suc: "escape_parts (Suc (Suc i)) parts = escape_parts i parts"
  by (induction parts arbitrary: i) auto

lemma odd_parts_escape: "odd_parts (escape_parts 0 parts) = odd_parts parts"
  by (induction parts rule: odd_parts.induct) (auto simp: escape_parts_Suc_Suc)

text \<open>
  Splitting the result of the loop gives the parts the loop produced: escaping a text
  part adds no backtick and removes none.
\<close>

lemma split_escaped:
  "re_split_code (concat (escape_parts 0 (re_split_code t))) = escape_parts 0 (re_split_code t)"
proof (induction t rule: measure_induct_rule [of length])
  case (less t)
  show ?case
  proof (cases t rule: backtick_cases)
    case none
    then show ?thesis
      by (simp add: split_no_backtick escape_text_no_backtick)
  next
    case (one pre tail)
    then show ?thesis
      by (simp add: split_one_backtick escape_text_append escape_text_backtick
          escape_text_no_backtick)
  next
    case (span pre body rest)
    have "re_split_code (concat (escape_parts 0 (re_split_code rest)))
            = escape_parts 0 (re_split_code rest)"
      using span by (intro less) simp
    with span show ?thesis
      by (simp add: split_span escape_parts_Suc_Suc escape_text_no_backtick)
  qed
qed

text \<open>
  Claim C1, as stated, fails: the escaper wraps a bare \<open>http://localhost:<port>\<close> in
  backticks, so the input has no code span and the output has one.
\<close>

theorem bare_url_gains_code_span:
  "length (code_spans (escape_html_tags ''http://localhost:<port>'')) = 1
   \<and> length (code_spans ''http://localhost:<port>'') = 0"
  by code_simp

text \<open>
  Claim C1, amended. For every input in which neither URL pattern matches, so that the
  two substitutions leave the text as it is, the escaper preserves the code spans: the
  output has as many code spans as the input, with the same content, in the same order.
\<close>

theorem code_spans_preserved_without_url:
  "sub_https (sub_localhost s) = s \<Longrightarrow>
     code_spans (escape_html_tags s) = code_spans s
     \<and> length (code_spans (escape_html_tags s)) = length (code_spans s)"
  by (simp add: code_spans_def escape_html_tags_def split_escaped odd_parts_escape)

theorem code_spans_preserved_without_url_witness:
  "code_spans (escape_html_tags ''a <b> `<c>` d > e'') = code_spans ''a <b> `<c>` d > e''
   \<and> code_spans ''a <b> `<c>` d > e'' = [''`<c>`'']"
proof -
  have h: "sub_https (sub_localhost ''a <b> `<c>` d > e'') = ''a <b> `<c>` d > e''"
    by code_simp
  have "code_spans ''a <b> `<c>` d > e'' = [''`<c>`'']"
    by code_simp
  then show ?thesis
    using code_spans_preserved_without_url [OF h] by simp
qed

text \<open>
  Claim C2. A bare \<open>http://localhost:<port>\<close> comes out between backticks, as the claim
  says. An input that holds the same URL inside a code span does not come out as it went
  in: the first substitution matches inside the span and adds a second pair of backticks,
  the split then takes the two pairs for two empty code spans, and the URL between them is
  escaped as text.
\<close>

theorem url_in_code_span_is_rewrapped:
  "escape_html_tags ''http://localhost:<port>'' = ''`http://localhost:<port>`''
   \<and> escape_html_tags ''`http://localhost:<port>` already in code''
     = ''``http://localhost:&lt;port&gt;`` already in code''"
  by code_simp

lemma escape_text_no_angle:
  "CHR ''<'' \<notin> set (escape_text t) \<and> CHR ''>'' \<notin> set (escape_text t)"
  by (auto simp: escape_text_def replace_single simp del: replace.simps split: if_splits)

lemma escape_text_id: "CHR ''<'' \<notin> set t \<Longrightarrow> CHR ''>'' \<notin> set t \<Longrightarrow> escape_text t = t"
  by (induction t) (auto simp: escape_text_def replace_single simp del: replace.simps)

lemma escape_text_idem: "escape_text (escape_text t) = escape_text t"
  by (simp add: escape_text_id escape_text_no_angle)

lemma escape_parts_idem: "escape_parts i (escape_parts i parts) = escape_parts i parts"
  by (induction parts arbitrary: i) (auto simp: escape_text_idem)

text \<open>
  The split and the escaping of the text parts, taken alone, change nothing on a second
  pass: the entities hold no angle bracket, so they are not escaped again.
\<close>

lemma escape_pass_idem:
  "concat (escape_parts 0 (re_split_code (concat (escape_parts 0 (re_split_code t)))))
     = concat (escape_parts 0 (re_split_code t))"
  by (simp add: split_escaped escape_parts_idem)

lemma second_pass_without_url:
  "sub_https (sub_localhost (escape_html_tags s)) = escape_html_tags s \<Longrightarrow>
     escape_html_tags (escape_html_tags s) = escape_html_tags s"
  using escape_pass_idem [of "sub_https (sub_localhost s)"]
  by (simp add: escape_html_tags_def)

text \<open>
  Claim C3. A second pass over the escaper's own output is not always the identity: the
  first pass wraps a bare \<open>http://localhost:<port>\<close> in backticks, and the second pass
  wraps the URL again and escapes it. The same happens where the first pass leaves a URL
  pattern that reaches into a code span. The entities \<open>&lt;\<close> and \<open>&gt;\<close>
  themselves are not escaped again.
\<close>

theorem second_pass_changes_output:
  "escape_html_tags ''http://localhost:<port>'' = ''`http://localhost:<port>`''
   \<and> escape_html_tags (escape_html_tags ''http://localhost:<port>'')
     = ''``http://localhost:&lt;port&gt;``''
   \<and> escape_html_tags ''https://a<>`<x>`'' = ''https://a&lt;&gt;`<x>`''
   \<and> escape_html_tags (escape_html_tags ''https://a<>`<x>`'')
     = ''`https://a&lt;&gt;`&lt;x&gt;``''
   \<and> escape_html_tags (escape_html_tags ''a <b>'') = escape_html_tags ''a <b>''"
  by code_simp

section \<open>Tables\<close>

text \<open>
  Claim C4. A row of the options table holds the description after
  \<open>escape_html_tags\<close>; a row of the commands table holds the description as it was
  read, with its angle brackets, since \<open>format_commands_section\<close> does not call the
  escaper.
\<close>

theorem command_description_not_escaped:
  "format_commands_section ''Commands:\<newline>  run  Start <app>''
     = ''| Command | Description |\<newline>|---------|-------------|\<newline>| `run` | Start <app> |\<newline>''
   \<and> escape_html_tags ''Start <app>'' = ''Start &lt;app&gt;''
   \<and> format_options_section ''Options:\<newline>  --run  Start <app>''
     = ''| Option | Description |\<newline>|--------|-------------|\<newline>| `--run` | Start &lt;app&gt; |\<newline>''"
  by code_simp

text \<open>
  Claim C5. On the help text of the specification's example the description is
  \<open>Does the foo thing.\<close> and the options table has two rows, in the order of the help
  text: \<open>-v, --verbose\<close> with \<open>Increase verbosity\<close>, and \<open>--out TEXT\<close> with
  \<open>Output path. Defaults to stdout.\<close>, the second line of that description joined to the
  first by one space. A newline at the end of the help text changes nothing.
\<close>

theorem spec_example_parses_as_stated:
  "extract_description
     ''Usage: cli foo [OPTIONS]\<newline>\<newline>Does the foo thing.\<newline>\<newline>Options:\<newline>  -v, --verbose  Increase verbosity\<newline>  --out TEXT     Output path.\<newline>                  Defaults to stdout.''
     = ''Does the foo thing.''
   \<and> format_options_section
     ''Usage: cli foo [OPTIONS]\<newline>\<newline>Does the foo thing.\<newline>\<newline>Options:\<newline>  -v, --verbose  Increase verbosity\<newline>  --out TEXT     Output path.\<newline>                  Defaults to stdout.''
     = ''| Option | Description |\<newline>|--------|-------------|\<newline>| `-v, --verbose` | Increase verbosity |\<newline>| `--out TEXT` | Output path. Defaults to stdout. |\<newline>''
   \<and> format_options_section
     ''Usage: cli foo [OPTIONS]\<newline>\<newline>Does the foo thing.\<newline>\<newline>Options:\<newline>  -v, --verbose  Increase verbosity\<newline>  --out TEXT     Output path.\<newline>                  Defaults to stdout.\<newline>''
     = ''| Option | Description |\<newline>|--------|-------------|\<newline>| `-v, --verbose` | Increase verbosity |\<newline>| `--out TEXT` | Output path. Defaults to stdout. |\<newline>''"
  by code_simp


lemma find_sections_no_options:
  "\<forall>line \<in> set lines. strip line \<noteq> ''Options:'' \<Longrightarrow>
     fst (find_sections i lines options_start) = options_start"
  by (induction lines arbitrary: i) auto

lemma find_commands_none:
  "\<forall>line \<in> set lines. strip line \<noteq> ''Commands:'' \<Longrightarrow> find_commands i lines = None"
  by (induction lines arbitrary: i) auto

text \<open>
  Claim C7. A help text with no line that reads \<open>Options:\<close> after trimming gives the
  empty string from \<open>format_options_section\<close>, and a help text with no line that reads
  \<open>Commands:\<close> after trimming gives the empty string from \<open>format_commands_section\<close>;
  neither case is an error.
\<close>

theorem missing_header_gives_empty_table:
  "((\<forall>line \<in> set (split_on nl help_text). strip line \<noteq> ''Options:'')
      \<longrightarrow> format_options_section help_text = [])
   \<and> ((\<forall>line \<in> set (split_on nl help_text). strip line \<noteq> ''Commands:'')
      \<longrightarrow> format_commands_section help_text = [])"
proof (intro conjI impI)
  assume a: "\<forall>line \<in> set (split_on nl help_text). strip line \<noteq> ''Options:''"
  have "fst (find_sections 0 (split_on nl help_text) None) = None"
    using a by (rule find_sections_no_options)
  then show "format_options_section help_text = []"
    by (cases "find_sections 0 (split_on nl help_text) None")
      (simp add: format_options_section_def)
next
  assume a: "\<forall>line \<in> set (split_on nl help_text). strip line \<noteq> ''Commands:''"
  have "find_commands 0 (split_on nl help_text) = None"
    using a by (rule find_commands_none)
  then show "format_commands_section help_text = []"
    by (simp add: format_commands_section_def)
qed

theorem missing_header_gives_empty_table_witness:
  "format_options_section ''Usage: cli x\<newline>\<newline>Runs x.'' = []
   \<and> format_commands_section ''Usage: cli x\<newline>\<newline>Runs x.'' = []"
proof -
  have s: "split_on nl ''Usage: cli x\<newline>\<newline>Runs x.'' = [''Usage: cli x'', [], ''Runs x.'']"
    by (simp add: split_on_def nl_def)
  have h1: "\<forall>line \<in> set (split_on nl ''Usage: cli x\<newline>\<newline>Runs x.''). strip line \<noteq> ''Options:''"
    unfolding s by (simp add: strip_def isspace_def)
  have h2: "\<forall>line \<in> set (split_on nl ''Usage: cli x\<newline>\<newline>Runs x.''). strip line \<noteq> ''Commands:''"
    unfolding s by (simp add: strip_def isspace_def)
  show ?thesis
    using h1 h2 missing_header_gives_empty_table [of "''Usage: cli x\<newline>\<newline>Runs x.''"]
    by blast
qed

section \<open>The assembled document\<close>

lemma separate_eq:
  "separate docs main_cli subcommands =
     (if filter no_parent docs = [] then main_cli else Some (last (filter no_parent docs)),
      subcommands @ filter (\<lambda>doc. \<not> no_parent doc) docs)"
  by (induction docs arbitrary: main_cli subcommands) auto

lemma split_from_append:
  "split_from d piece (a @ d # b) = split_from d piece a @ split_from d [] b"
  by (induction a arbitrary: piece) auto

lemma split_on_join:
  "xs \<noteq> [] \<Longrightarrow> split_on d (join [d] xs) = concat (map (split_on d) xs)"
proof (induction "[d]" xs rule: join.induct)
  case 1
  then show ?case by simp
next
  case (2 x)
  then show ?case by simp
next
  case (3 x y ys)
  have "split_on d (join [d] (x # y # ys)) = split_from d [] (x @ d # join [d] (y # ys))"
    by (simp add: split_on_def)
  also have "\<dots> = split_on d x @ split_on d (join [d] (y # ys))"
    by (simp add: split_from_append split_on_def)
  finally show ?case
    using 3 by simp
qed

lemma join_eq_Nil: "join sep xs = [] \<Longrightarrow> (\<forall>x \<in> set xs. x = [])"
  by (induction sep xs rule: join.induct) auto

lemma sorted_names_unique:
  assumes "mset ys = mset xs"
  shows "map f (sort_key f ys) = map f (sort_key f xs)"
proof -
  have "mset (map f (sort_key f ys)) = mset (map f (sort_key f xs))"
    using assms by simp
  moreover have "sorted (map f (sort_key f ys))" and "sorted (map f (sort_key f xs))"
    by simp_all
  ultimately show ?thesis
    by (metis properties_for_sort)
qed

text \<open>
  Claim C6. Whatever the order of the input list, the subsections of the document are
  those of the subcommands in ascending lexicographic order of the command name: the
  document is the head of the page followed by the lines of each subcommand, taken from
  a list that is sorted by name and holds the subcommands of the input, each as often as
  the input does; and two inputs with the same entries in any order give the same
  sequence of names.
\<close>

theorem subsections_sorted_by_name:
  "generate_command_docs docs =
     join [nl]
       ((case fst (separate docs None []) of Some m \<Rightarrow> main_lines m | None \<Rightarrow> [])
        @ [''## Command Details'', []]
        @ concat (map subcommand_lines
            (sort_key cmd_name (filter (\<lambda>doc. \<not> no_parent doc) docs))))
   \<and> sorted (map cmd_name (sort_key cmd_name (filter (\<lambda>doc. \<not> no_parent doc) docs)))
   \<and> mset (sort_key cmd_name (filter (\<lambda>doc. \<not> no_parent doc) docs))
       = mset (filter (\<lambda>doc. \<not> no_parent doc) docs)
   \<and> (mset docs' = mset docs \<longrightarrow>
        map cmd_name (sort_key cmd_name (filter (\<lambda>doc. \<not> no_parent doc) docs'))
          = map cmd_name (sort_key cmd_name (filter (\<lambda>doc. \<not> no_parent doc) docs)))"
proof -
  have "mset docs' = mset docs \<Longrightarrow>
      mset (filter (\<lambda>doc. \<not> no_parent doc) docs') = mset (filter (\<lambda>doc. \<not> no_parent doc) docs)"
    by (metis mset_filter)
  then show ?thesis
    by (auto simp: generate_command_docs_def markdown_content_def separate_eq
        intro: sorted_names_unique)
qed

theorem subsections_sorted_by_name_witness:
  "map cmd_name (sort_key cmd_name (filter (\<lambda>doc. \<not> no_parent doc)
     [\<lparr>cmd_name = ''show'', cmd_parent = Some ''cli'', cmd_usage = ''Usage: cli show'', cmd_help = []\<rparr>,
      \<lparr>cmd_name = ''drop'', cmd_parent = Some ''cli'', cmd_usage = ''Usage: cli drop'', cmd_help = []\<rparr>]))
   = map cmd_name (sort_key cmd_name (filter (\<lambda>doc. \<not> no_parent doc)
     [\<lparr>cmd_name = ''drop'', cmd_parent = Some ''cli'', cmd_usage = ''Usage: cli drop'', cmd_help = []\<rparr>,
      \<lparr>cmd_name = ''show'', cmd_parent = Some ''cli'', cmd_usage = ''Usage: cli show'', cmd_help = []\<rparr>]))
   \<and> map cmd_name (sort_key cmd_name (filter (\<lambda>doc. \<not> no_parent doc)
     [\<lparr>cmd_name = ''show'', cmd_parent = Some ''cli'', cmd_usage = ''Usage: cli show'', cmd_help = []\<rparr>,
      \<lparr>cmd_name = ''drop'', cmd_parent = Some ''cli'', cmd_usage = ''Usage: cli drop'', cmd_help = []\<rparr>]))
   = [''drop'', ''show'']"
proof -
  have h: "mset [\<lparr>cmd_name = ''show'', cmd_parent = Some ''cli'', cmd_usage = ''Usage: cli show'', cmd_help = []\<rparr>,
      \<lparr>cmd_name = ''drop'', cmd_parent = Some ''cli'', cmd_usage = ''Usage: cli drop'', cmd_help = []\<rparr>]
    = mset [\<lparr>cmd_name = ''drop'', cmd_parent = Some ''cli'', cmd_usage = ''Usage: cli drop'', cmd_help = []\<rparr>,
      \<lparr>cmd_name = ''show'', cmd_parent = Some ''cli'', cmd_usage = ''Usage: cli show'', cmd_help = []\<rparr>]"
    by simp
  have e: "map cmd_name (sort_key cmd_name (filter (\<lambda>doc. \<not> no_parent doc)
     [\<lparr>cmd_name = ''show'', cmd_parent = Some ''cli'', cmd_usage = ''Usage: cli show'', cmd_help = []\<rparr>,
      \<lparr>cmd_name = ''drop'', cmd_parent = Some ''cli'', cmd_usage = ''Usage: cli drop'', cmd_help = []\<rparr>]))
   = [''drop'', ''show'']"
    by (simp add: no_parent_def)
  from h e show ?thesis
    using subsections_sorted_by_name
      [of "[\<lparr>cmd_name = ''drop'', cmd_parent = Some ''cli'', cmd_usage = ''Usage: cli drop'', cmd_help = []\<rparr>,
      \<lparr>cmd_name = ''show'', cmd_parent = Some ''cli'', cmd_usage = ''Usage: cli show'', cmd_help = []\<rparr>]"
          "[\<lparr>cmd_name = ''show'', cmd_parent = Some ''cli'', cmd_usage = ''Usage: cli show'', cmd_help = []\<rparr>,
      \<lparr>cmd_name = ''drop'', cmd_parent = Some ''cli'', cmd_usage = ''Usage: cli drop'', cmd_help = []\<rparr>]"]
    by blast
qed

text \<open>
  Claim C9. With more than one entry without a parent in the input, the document is
  built from the last of them and from the entries that have a parent: the earlier
  entries without a parent are neither the main entry nor subcommands.
\<close>

theorem last_root_entry_wins:
  "1 < length (filter no_parent docs) \<Longrightarrow>
     generate_command_docs docs =
       join [nl]
         (main_lines (last (filter no_parent docs))
          @ [''## Command Details'', []]
          @ concat (map subcommand_lines
              (sort_key cmd_name (filter (\<lambda>doc. \<not> no_parent doc) docs))))"
  by (auto simp: generate_command_docs_def markdown_content_def separate_eq)

theorem last_root_entry_wins_witness:
  "generate_command_docs
     [\<lparr>cmd_name = ''cli'', cmd_parent = None, cmd_usage = ''Usage: cli [OPTIONS]'',
        cmd_help = ''Usage: cli [OPTIONS]''\<rparr>,
      \<lparr>cmd_name = ''run'', cmd_parent = Some ''cli'', cmd_usage = ''Usage: cli run'',
        cmd_help = ''Usage: cli run''\<rparr>,
      \<lparr>cmd_name = ''other'', cmd_parent = Some [], cmd_usage = ''Usage: other [OPTIONS]'',
        cmd_help = ''Usage: other [OPTIONS]''\<rparr>]
   = join [nl]
       (main_lines
          \<lparr>cmd_name = ''other'', cmd_parent = Some [], cmd_usage = ''Usage: other [OPTIONS]'',
            cmd_help = ''Usage: other [OPTIONS]''\<rparr>
        @ [''## Command Details'', []]
        @ subcommand_lines
            \<lparr>cmd_name = ''run'', cmd_parent = Some ''cli'', cmd_usage = ''Usage: cli run'',
              cmd_help = ''Usage: cli run''\<rparr>)"
  using last_root_entry_wins
    [of "[\<lparr>cmd_name = ''cli'', cmd_parent = None, cmd_usage = ''Usage: cli [OPTIONS]'',
             cmd_help = ''Usage: cli [OPTIONS]''\<rparr>,
          \<lparr>cmd_name = ''run'', cmd_parent = Some ''cli'', cmd_usage = ''Usage: cli run'',
             cmd_help = ''Usage: cli run''\<rparr>,
          \<lparr>cmd_name = ''other'', cmd_parent = Some [], cmd_usage = ''Usage: other [OPTIONS]'',
             cmd_help = ''Usage: other [OPTIONS]''\<rparr>]"]
  by (simp add: no_parent_def)

text \<open>
  Claim C10. The heading \<open>## Command Details\<close> is always appended: it is a line of the
  document for every input, also for an input without subcommands, and for the empty
  input the document is that heading and a newline. So the document is never the empty
  string.
\<close>

theorem command_details_always_emitted:
  "''## Command Details'' \<in> set (markdown_content docs)
   \<and> has_line (generate_command_docs docs) ''## Command Details''
   \<and> generate_command_docs docs \<noteq> []
   \<and> generate_command_docs [] = ''## Command Details\<newline>''"
proof -
  have m: "''## Command Details'' \<in> set (markdown_content docs)"
    by (simp add: markdown_content_def separate_eq)
  then have ne: "markdown_content docs \<noteq> []"
    by auto
  have "split_on nl ''## Command Details'' = [''## Command Details'']"
    by (simp add: split_on_def nl_def)
  then have "''## Command Details'' \<in> set (concat (map (split_on nl) (markdown_content docs)))"
    using m by force
  then have l: "has_line (generate_command_docs docs) ''## Command Details''"
    using ne by (simp add: has_line_def generate_command_docs_def split_on_join)
  have "generate_command_docs docs \<noteq> []"
  proof
    assume "generate_command_docs docs = []"
    then have "\<forall>x \<in> set (markdown_content docs). x = []"
      unfolding generate_command_docs_def by (rule join_eq_Nil)
    with m show False by auto
  qed
  moreover have "generate_command_docs [] = ''## Command Details\<newline>''"
    by (simp add: generate_command_docs_def markdown_content_def nl_def)
  ultimately show ?thesis
    using m l by simp
qed

section \<open>The output file\<close>

text \<open>
  A write happens exactly when the file does not exist or the text read from it differs
  from the document; otherwise the state is left as it is.
\<close>

lemma writer_writes_when_text_differs:
  "main linesep docs st =
     (if \<exists>stored. output_file st = Some stored \<and> read_text stored = generate_command_docs docs
      then (st, Up_To_Date)
      else (st\<lparr>output_file := Some (write_text linesep (generate_command_docs docs)),
               written := written st @ [generate_command_docs docs]\<rparr>, Generated))"
  by (auto simp: main_def write_docs_def Let_def split: option.splits)

text \<open>
  A text without carriage return is read back as it was written, with \<open>\n\<close> and with
  \<open>\r\n\<close> as the line separator.
\<close>

lemma read_text_no_cr: "cr \<notin> set s \<Longrightarrow> read_text s = s"
  by (induction s rule: read_text.induct) auto

lemma read_text_Cons: "c \<noteq> cr \<Longrightarrow> read_text (c # s) = c # read_text s"
  by (cases s) auto

lemma read_write_posix: "cr \<notin> set s \<Longrightarrow> read_text (write_text [nl] s) = s"
proof -
  have "concat (map (\<lambda>c. if c = nl then [nl] else [c]) s) = s"
    by (induction s) auto
  moreover assume "cr \<notin> set s"
  ultimately show ?thesis
    by (simp add: write_text_def replace_single read_text_no_cr del: replace.simps)
qed

lemma read_write_windows: "cr \<notin> set s \<Longrightarrow> read_text (write_text [cr, nl] s) = s"
proof (induction s)
  case Nil
  then show ?case
    by (simp add: write_text_def)
next
  case (Cons c s)
  then have ih: "read_text (concat (map (\<lambda>c. if c = nl then [cr, nl] else [c]) s)) = s"
    and c: "c \<noteq> cr"
    by (auto simp: write_text_def replace_single simp del: replace.simps)
  show ?case
  proof (cases "c = nl")
    case True
    with ih show ?thesis
      by (simp add: write_text_def replace_single del: replace.simps)
  next
    case False
    with ih c show ?thesis
      by (simp add: write_text_def replace_single read_text_Cons del: replace.simps)
  qed
qed

lemma second_run_up_to_date_without_cr:
  assumes "cr \<notin> set (generate_command_docs docs)"
    and "linesep = [nl] \<or> linesep = [cr, nl]"
  shows "main linesep docs (fst (main linesep docs st)) = (fst (main linesep docs st), Up_To_Date)"
  using assms
  by (auto simp: main_def write_docs_def Let_def read_write_posix read_write_windows
      split: option.splits)

text \<open>
  Claim C8. For a document that holds a carriage return the second run writes again:
  the first run stores the document with its \<open>\r\<close>, so that the file holds the
  document character for character, the second run reads the \<open>\r\<close> back as
  \<open>\n\<close>, finds a difference and writes the same text once more.
\<close>

theorem carriage_return_rewritten_every_run:
  "generate_command_docs
     [\<lparr>cmd_name = ''run'', cmd_parent = Some ''cli'',
        cmd_usage = ''Usage: cli run'' @ [cr] @ ''now'', cmd_help = []\<rparr>]
     = ''## Command Details\<newline>\<newline>### `run`\<newline>\<newline>**Usage:**\<newline>\<newline>```bash\<newline>Usage: cocoindex run''
       @ [cr] @ ''now\<newline>```\<newline>\<newline>---\<newline>''
   \<and> main [nl]
       [\<lparr>cmd_name = ''run'', cmd_parent = Some ''cli'',
          cmd_usage = ''Usage: cli run'' @ [cr] @ ''now'', cmd_help = []\<rparr>]
       \<lparr>output_file = None, written = []\<rparr>
     = (\<lparr>output_file = Some (generate_command_docs
            [\<lparr>cmd_name = ''run'', cmd_parent = Some ''cli'',
               cmd_usage = ''Usage: cli run'' @ [cr] @ ''now'', cmd_help = []\<rparr>]),
         written = [generate_command_docs
            [\<lparr>cmd_name = ''run'', cmd_parent = Some ''cli'',
               cmd_usage = ''Usage: cli run'' @ [cr] @ ''now'', cmd_help = []\<rparr>]]\<rparr>,
        Generated)
   \<and> main [nl]
       [\<lparr>cmd_name = ''run'', cmd_parent = Some ''cli'',
          cmd_usage = ''Usage: cli run'' @ [cr] @ ''now'', cmd_help = []\<rparr>]
       (fst (main [nl]
          [\<lparr>cmd_name = ''run'', cmd_parent = Some ''cli'',
             cmd_usage = ''Usage: cli run'' @ [cr] @ ''now'', cmd_help = []\<rparr>]
          \<lparr>output_file = None, written = []\<rparr>))
     = (\<lparr>output_file = Some (generate_command_docs
            [\<lparr>cmd_name = ''run'', cmd_parent = Some ''cli'',
               cmd_usage = ''Usage: cli run'' @ [cr] @ ''now'', cmd_help = []\<rparr>]),
         written = [generate_command_docs
            [\<lparr>cmd_name = ''run'', cmd_parent = Some ''cli'',
               cmd_usage = ''Usage: cli run'' @ [cr] @ ''now'', cmd_help = []\<rparr>],
           generate_command_docs
            [\<lparr>cmd_name = ''run'', cmd_parent = Some ''cli'',
               cmd_usage = ''Usage: cli run'' @ [cr] @ ''now'', cmd_help = []\<rparr>]]\<rparr>,
        Generated)"
  by code_simp

end
